theory Spec2Isabelle
  imports Complex_Main "HOL-Library.Multiset"
begin

section \<open>The data the backend and the dashboard exchange\<close>

text \<open>
  The shapes follow \<^verbatim>\<open>analysisSchema\<close> and \<^verbatim>\<open>feedbackSchema\<close> of
  \<^verbatim>\<open>backend/server.js\<close> and the interfaces \<^verbatim>\<open>AnalysisItem\<close>, \<^verbatim>\<open>Cluster\<close>,
  \<^verbatim>\<open>Recommendation\<close> and \<^verbatim>\<open>AnalysisResult\<close> of
  \<^verbatim>\<open>frontend/src/components/AnalysisPage.tsx\<close>. A JavaScript number that carries a
  sentiment or a score is the rational its decimal notation denotes, a count or an index
  a natural number, a timestamp an integer; an optional field (\<^verbatim>\<open>description?\<close>)
  is an \<open>option\<close>.
  Field names are the source's, prefixed where Isabelle reserves the word or where two
  schemas share it (\<^verbatim>\<open>text\<close>, \<^verbatim>\<open>createdAt\<close>, \<^verbatim>\<open>cluster\<close>, \<^verbatim>\<open>keywords\<close>).
\<close>

record analysis_item =
  item_text :: string
  clean :: string
  item_cluster :: nat
  sentiment :: rat

record cluster =
  cluster_index :: nat
  label :: string
  cl_keywords :: "string list"
  volume :: nat
  avg_sentiment :: rat
  roi :: rat
  description :: "string option"
  cluster_sentiment :: "string option"
  labeling_method :: "string option"

record recommendation =
  action :: string
  priority :: string
  impact :: string

record analysis_result =
  items :: "analysis_item list"
  clusters :: "cluster list"
  insights :: "string list option"
  recommendations :: "recommendation list option"
  priority_areas :: "string list option"

text \<open>The literal \<^verbatim>\<open>{ items: [], clusters: [] }\<close>: every optional field absent.\<close>

definition empty_result :: analysis_result where
  "empty_result =
     \<lparr>items = [], clusters = [], insights = None, recommendations = None,
      priority_areas = None\<rparr>"

record feedback =
  fb_text :: string
  fb_source :: string
  fb_createdAt :: int

record analysis_params =
  p_n_clusters :: int
  p_limit :: rat

record analysis =
  params :: analysis_params
  summary :: analysis_result
  an_createdAt :: int

section \<open>The backend: \<^verbatim>\<open>POST /analyze\<close> of \<^verbatim>\<open>backend/server.js\<close>\<close>

text \<open>
  The two MongoDB collections the handler touches are the state; the handler returns
  the state it leaves behind.
\<close>

record store =
  feedbacks :: "feedback list"
  analyses :: "analysis list"

text \<open>
  The request body after \<^verbatim>\<open>express.json()\<close>: each of the two properties may be
  absent, and each is a JSON number when present (as the schema's \<^verbatim>\<open>Number\<close> and the
  dashboard's request have it). \<^verbatim>\<open>n_clusters\<close> is an integer and is forwarded as it
  came. \<^verbatim>\<open>limit\<close> is any number, read like every number here as the rational its
  decimal notation denotes: a fraction and a negative number are admitted.
\<close>

record request_body =
  n_clusters :: "int option"
  limit :: "rat option"

text \<open>
  What \<^verbatim>\<open>parseInt\<close> returns: \<^verbatim>\<open>NaN\<close>, or an integer.
\<close>

datatype parsed = NaN | Parsed int

text \<open>
  Everything the sources do not fix and an \<^verbatim>\<open>await\<close> of the handler can reject on:
  \<^item> \<open>brain_post texts k\<close> is \<^verbatim>\<open>axios.post("http://brain:5000/analyze", {texts, n_clusters}, {timeout: 120000})\<close>:
    \<open>Inl m\<close> when the promise rejects with \<^verbatim>\<open>error.message = m\<close> (HTTP error status,
    network failure, the two-minute timeout), \<open>Inr d\<close> for \<^verbatim>\<open>response.data = d\<close>;
  \<^item> \<open>find_error\<close> and \<open>save_error\<close> are the messages the database rejects
    \<^verbatim>\<open>Feedback.find()\<close> and \<^verbatim>\<open>analysis.save()\<close> with, if it does (a limit it cannot
    take and a summary it cannot cast included);
  \<^item> \<open>now\<close> is \<^verbatim>\<open>Date.now\<close>, the schema default of \<^verbatim>\<open>createdAt\<close>;
  \<^item> \<open>parseInt_other\<close> is the result of the built-in \<^verbatim>\<open>parseInt\<close> on the numbers whose
    notation has an exponent or a sign (see \<open>parseInt\<close> below);
  \<^item> \<open>odd_limit p fs\<close> is what the query over the collection \<open>fs\<close> gives when the
    limit handed to Mongoose is \<^verbatim>\<open>NaN\<close> or negative: the sources do not say, Mongoose and
    the driver decide;
  \<^item> \<open>tie_order fs\<close> is the order in which the database takes up the documents of the
    collection \<open>fs\<close> when it sorts them: MongoDB promises no order among documents of
    equal sort key, and this is the order such documents come out in.
\<close>

record env =
  brain_post :: "string list \<Rightarrow> int \<Rightarrow> string + analysis_result"
  find_error :: "string option"
  save_error :: "string option"
  now :: int
  parseInt_other :: "rat \<Rightarrow> parsed"
  odd_limit :: "parsed \<Rightarrow> feedback list \<Rightarrow> string + feedback list"
  tie_order :: "feedback list \<Rightarrow> feedback list"

text \<open>The calls that leave the process, in the order the handler makes them.\<close>

datatype ext_call = BrainAnalyze "string list" int

text \<open>
  \<^verbatim>\<open>res.json(x)\<close> answers with status 200; the \<^verbatim>\<open>catch\<close> block answers
  \<^verbatim>\<open>res.status(500).json({ error, details })\<close>.
\<close>

datatype response =
  ResJson analysis_result
| ResError nat string string

text \<open>
  \<^verbatim>\<open>parseInt(limit)\<close> on a number: the number is first written out as a string, and the
  integer at the start of that string is read back. Zero is written \<^verbatim>\<open>0\<close>. A number
  from \<open>10\<^sup>-\<^sup>6\<close> up to, but not including, \<open>10\<^sup>2\<^sup>1\<close> is written in plain decimal
  notation, so what is read back is its integer part: \<^verbatim>\<open>parseInt(2.5)\<close> is 2 and
  \<^verbatim>\<open>parseInt(0.5)\<close> is 0. Any other number is written with an exponent
  (\<^verbatim>\<open>1e+21\<close>, \<^verbatim>\<open>5e-7\<close>) or a sign; what is read back then is \<open>parseInt_other\<close>
  (\<^verbatim>\<open>parseInt(1e21)\<close> is 1).
\<close>

definition parseInt :: "env \<Rightarrow> rat \<Rightarrow> parsed" where
  "parseInt e q =
     (if q = 0 \<or> (1 / 10 ^ 6 \<le> q \<and> q < 10 ^ 21) then Parsed \<lfloor>q\<rfloor>
      else parseInt_other e q)"

text \<open>
  \<^verbatim>\<open>.sort({ createdAt: -1 })\<close>: descending by \<^verbatim>\<open>createdAt\<close>, documents of equal
  \<^verbatim>\<open>createdAt\<close> in the order the database took them up.
\<close>

definition sort_createdAt_desc :: "env \<Rightarrow> feedback list \<Rightarrow> feedback list" where
  "sort_createdAt_desc e fs = sort_key (\<lambda>f. - fb_createdAt f) (tie_order e fs)"

text \<open>
  \<^verbatim>\<open>.limit(n)\<close> of a MongoDB cursor: at most \<open>n\<close> documents, and \<^verbatim>\<open>limit(0)\<close> is
  the same as setting no limit.
\<close>

definition mongo_limit :: "nat \<Rightarrow> 'a list \<Rightarrow> 'a list" where
  "mongo_limit n xs = (if n = 0 then xs else take n xs)"

text \<open>
  \<^verbatim>\<open>Feedback.find().sort({ createdAt: -1 }).limit(parseInt(limit)).select("text")\<close>,
  given what \<^verbatim>\<open>parseInt(limit)\<close> returned.
\<close>

definition find_feedbacks :: "env \<Rightarrow> parsed \<Rightarrow> store \<Rightarrow> string + feedback list" where
  "find_feedbacks e p st =
     (case find_error e of
        Some m \<Rightarrow> Inl m
      | None \<Rightarrow>
          (case p of
             NaN \<Rightarrow> odd_limit e p (feedbacks st)
           | Parsed n \<Rightarrow>
               if n < 0 then odd_limit e p (feedbacks st)
               else Inr (mongo_limit (nat n) (sort_createdAt_desc e (feedbacks st)))))"

text \<open>
  \<^verbatim>\<open>callBrainService\<close>: one \<^verbatim>\<open>axios.post\<close>, no retry; a rejection is rethrown as
  \<^verbatim>\<open>new Error(`Brain service failed: ${error.message}`)\<close>.
\<close>

definition callBrainService :: "env \<Rightarrow> string list \<Rightarrow> int \<Rightarrow> string + analysis_result" where
  "callBrainService e texts k =
     (case brain_post e texts k of
        Inl m \<Rightarrow> Inl (''Brain service failed: '' @ m)
      | Inr d \<Rightarrow> Inr d)"

text \<open>
  \<^verbatim>\<open>new Analysis({ params, summary: analysisResult })\<close>: Mongoose casts the summary to
  \<^verbatim>\<open>analysisSchema\<close>, which keeps \<^verbatim>\<open>text\<close>, \<^verbatim>\<open>clean\<close>, \<^verbatim>\<open>cluster\<close>, \<^verbatim>\<open>sentiment\<close> of an
  item and \<^verbatim>\<open>cluster\<close>, \<^verbatim>\<open>label\<close>, \<^verbatim>\<open>keywords\<close>, \<^verbatim>\<open>volume\<close>, \<^verbatim>\<open>avg_sentiment\<close>,
  \<^verbatim>\<open>roi\<close> of a cluster, and drops every property the schema does not declare.
\<close>

definition cast_cluster :: "cluster \<Rightarrow> cluster" where
  "cast_cluster c =
     c\<lparr>description := None, cluster_sentiment := None, labeling_method := None\<rparr>"

definition cast_summary :: "analysis_result \<Rightarrow> analysis_result" where
  "cast_summary r =
     \<lparr>items = items r, clusters = map cast_cluster (clusters r), insights = None,
      recommendations = None, priority_areas = None\<rparr>"

text \<open>
  \<^verbatim>\<open>await analysis.save()\<close>: the document joins the collection, or the save rejects
  and the collection stays as it was.
\<close>

definition save_analysis :: "env \<Rightarrow> analysis \<Rightarrow> store \<Rightarrow> string + store" where
  "save_analysis e a st =
     (case save_error e of
        Some m \<Rightarrow> Inl m
      | None \<Rightarrow> Inr (st\<lparr>analyses := analyses st @ [a]\<rparr>))"

text \<open>The \<^verbatim>\<open>catch\<close> block of the handler.\<close>

definition analyze_failed :: "string \<Rightarrow> response" where
  "analyze_failed m = ResError 500 ''Failed to analyze feedback'' m"

text \<open>
  The destructuring defaults of \<^verbatim>\<open>const { n_clusters = 5, limit = 1000 } = req.body\<close>.
\<close>

definition requested_clusters :: "request_body \<Rightarrow> int" where
  "requested_clusters body = (case n_clusters body of None \<Rightarrow> 5 | Some v \<Rightarrow> v)"

definition requested_limit :: "request_body \<Rightarrow> rat" where
  "requested_limit body = (case limit body of None \<Rightarrow> 1000 | Some v \<Rightarrow> v)"

text \<open>
  The handler: the response, the store it leaves, and the external calls it made.
  Every \<^verbatim>\<open>await\<close> that rejects lands in the \<^verbatim>\<open>catch\<close> block. The response carries
  the brain's answer as it came; the stored document carries the cast one.
\<close>

definition post_analyze :: "env \<Rightarrow> request_body \<Rightarrow> store \<Rightarrow> response \<times> store \<times> ext_call list" where
  "post_analyze e body st =
     (let k = requested_clusters body;
          lmt = requested_limit body
      in case find_feedbacks e (parseInt e lmt) st of
           Inl m \<Rightarrow> (analyze_failed m, st, [])
         | Inr fbs \<Rightarrow>
             if length fbs = 0 then (ResJson empty_result, st, [])
             else
               let texts = map fb_text fbs
               in case callBrainService e texts k of
                    Inl m \<Rightarrow> (analyze_failed m, st, [BrainAnalyze texts k])
                  | Inr analysisResult \<Rightarrow>
                      (case save_analysis e
                              \<lparr>params = \<lparr>p_n_clusters = k, p_limit = lmt\<rparr>,
                               summary = cast_summary analysisResult,
                               an_createdAt = now e\<rparr> st of
                         Inl m \<Rightarrow> (analyze_failed m, st, [BrainAnalyze texts k])
                       | Inr st' \<Rightarrow> (ResJson analysisResult, st', [BrainAnalyze texts k])))"

text \<open>The batches handed to the brain service, read off the calls made.\<close>

fun batches :: "ext_call list \<Rightarrow> string list list" where
  "batches [] = []"
| "batches (BrainAnalyze texts k # cs) = texts # batches cs"

section \<open>The dashboard: sentiment classes in the frontend components\<close>

text \<open>
  \<^verbatim>\<open>frontend/src/components/AnalysisPage.tsx\<close>: \<^verbatim>\<open>getSentimentColor\<close> and
  \<^verbatim>\<open>getSentimentLabel\<close>. The JavaScript literals \<^verbatim>\<open>0.1\<close> and \<^verbatim>\<open>-0.1\<close> are
  the rationals \<open>1/10\<close> and \<open>-1/10\<close>: a score arrives as a decimal in JSON and is
  rounded to a double by the rule that rounds the literal, so the comparison of the
  doubles is the comparison of the decimals (for scores of up to 15 significant digits).
\<close>

definition getSentimentColor :: "rat \<Rightarrow> string" where
  "getSentimentColor s =
     (if s > 1/10 then ''text-green-600 bg-green-50''
      else if s < - (1/10) then ''text-red-600 bg-red-50''
      else ''text-gray-600 bg-gray-50'')"

definition getSentimentLabel :: "rat \<Rightarrow> string" where
  "getSentimentLabel s =
     (if s > 1/10 then ''Positive''
      else if s < - (1/10) then ''Negative''
      else ''Neutral'')"

text \<open>
  \<^verbatim>\<open>frontend/src/components/HomePage.tsx\<close> declares its own pair of the same names.
\<close>

definition home_getSentimentColor :: "rat \<Rightarrow> string" where
  "home_getSentimentColor s =
     (if s > 1/10 then ''text-green-600''
      else if s < - (1/10) then ''text-red-600''
      else ''text-gray-600'')"

definition home_getSentimentLabel :: "rat \<Rightarrow> string" where
  "home_getSentimentLabel s =
     (if s > 1/10 then ''Positive''
      else if s < - (1/10) then ''Negative''
      else ''Neutral'')"

text \<open>
  The state \<^verbatim>\<open>filterSentiment: "all" | "positive" | "negative" | "neutral"\<close> and the
  two \<^verbatim>\<open>.filter\<close> callbacks of \<^verbatim>\<open>AnalysisPage.tsx\<close> that read it: the one over
  \<^verbatim>\<open>analysis.clusters\<close> (by \<^verbatim>\<open>avg_sentiment\<close>) and the one over
  \<^verbatim>\<open>analysis.items\<close> (by \<^verbatim>\<open>sentiment\<close>).
\<close>

datatype filter_sentiment = FilterAll | FilterPositive | FilterNegative | FilterNeutral

fun cluster_filter :: "filter_sentiment \<Rightarrow> cluster \<Rightarrow> bool" where
  "cluster_filter FilterAll c = True"
| "cluster_filter FilterPositive c = (avg_sentiment c > 1/10)"
| "cluster_filter FilterNegative c = (avg_sentiment c < - (1/10))"
| "cluster_filter FilterNeutral c = (avg_sentiment c \<ge> - (1/10) \<and> avg_sentiment c \<le> 1/10)"

fun item_filter :: "filter_sentiment \<Rightarrow> analysis_item \<Rightarrow> bool" where
  "item_filter FilterAll i = True"
| "item_filter FilterPositive i = (sentiment i > 1/10)"
| "item_filter FilterNegative i = (sentiment i < - (1/10))"
| "item_filter FilterNeutral i = (sentiment i \<ge> - (1/10) \<and> sentiment i \<le> 1/10)"

text \<open>
  The two counters of the summary card:
  \<^verbatim>\<open>analysis.items.filter((item) => item.sentiment > 0.1).length\<close> and
  \<^verbatim>\<open>analysis.items.filter((item) => item.sentiment < -0.1).length\<close>.
\<close>

definition positive_feedback :: "analysis_result \<Rightarrow> nat" where
  "positive_feedback a = length (filter (\<lambda>item. sentiment item > 1/10) (items a))"

definition negative_feedback :: "analysis_result \<Rightarrow> nat" where
  "negative_feedback a = length (filter (\<lambda>item. sentiment item < - (1/10)) (items a))"

section \<open>The analysis pipeline behind the brain service\<close>

text \<open>
  The backend posts the batch to \<^verbatim>\<open>http://brain:5000/analyze\<close>. The service behind
  that address (\<^verbatim>\<open>brain/analyze.py\<close>, \<^verbatim>\<open>brain/hybrid_analyzer.py\<close>) is not among the
  sources; what follows is modelled from the specification (sections 3, 4, 6 and 7),
  and every definition of this section says so.
\<close>

subsection \<open>Cluster engine (specification 4.3)\<close>

text \<open>
  Modelled from the spec: a feature vector (section 3), dense, one rational weight per
  vocabulary term.
\<close>

type_synonym vec = "rat list"

text \<open>
  Modelled from the spec: the clamp of the cluster engine, which is not in the sources;
  "\<open>k\<close> is clamped to \<open>max(1, min(k, N))\<close>".
\<close>

definition effective_k :: "int \<Rightarrow> nat \<Rightarrow> nat" where
  "effective_k k N = nat (max 1 (min k (int N)))"

text \<open>
  Modelled from the spec: the distance of the cluster engine, which is not in the
  sources; of "cosine or Euclidean distance" the (squared) Euclidean one.
\<close>

definition sq_dist :: "vec \<Rightarrow> vec \<Rightarrow> rat" where
  "sq_dist a b = sum_list (map (\<lambda>(x, y). (x - y) * (x - y)) (zip a b))"

text \<open>
  Modelled from the spec: the assignment step of the cluster engine, which is not in
  the sources; "tie-break for equidistant points: lowest cluster index wins".
\<close>

fun nearest :: "vec list \<Rightarrow> vec \<Rightarrow> nat" where
  "nearest [] v = 0"
| "nearest [c] v = 0"
| "nearest (c # cs) v =
     (let j = nearest cs v in if sq_dist v c \<le> sq_dist v (cs ! j) then 0 else Suc j)"

text \<open>
  Modelled from the spec: the assignment step over all vectors, "one ClusterAssignment
  per input item".
\<close>

definition assign :: "vec list \<Rightarrow> vec list \<Rightarrow> nat list" where
  "assign cents vs = map (nearest cents) vs"

text \<open>
  Modelled from the spec: the centroid refinement of the cluster engine, which is not in
  the sources. A centroid moves to the mean of its members; a cluster without members
  keeps its centroid.
\<close>

definition members :: "'a list \<Rightarrow> nat list \<Rightarrow> nat \<Rightarrow> 'a list" where
  "members vs asg j = map fst (filter (\<lambda>(v, a). a = j) (zip vs asg))"

text \<open>
  Modelled from the spec: the componentwise sum of the members of a cluster, from which
  the refinement takes their mean.
\<close>

fun vec_sum :: "vec list \<Rightarrow> vec" where
  "vec_sum [] = []"
| "vec_sum [v] = v"
| "vec_sum (v # vs) = map (\<lambda>(x, y). x + y) (zip v (vec_sum vs))"

text \<open>
  Modelled from the spec: one refinement of all centroids, in index order.
\<close>

definition update_centroids :: "vec list \<Rightarrow> vec list \<Rightarrow> nat list \<Rightarrow> vec list" where
  "update_centroids cents vs asg =
     map (\<lambda>j. let ms = members vs asg j
              in if ms = [] then cents ! j
                 else map (\<lambda>x. x / of_nat (length ms)) (vec_sum ms))
         [0..<length cents]"

text \<open>
  Modelled from the spec: the iteration of the cluster engine, which is not in the
  sources; "iterate until assignments stabilize or a fixed maximum iteration count is
  reached (non-convergence after the cap is not an error)". The first argument is what
  is left of the cap.
\<close>

fun refine :: "nat \<Rightarrow> vec list \<Rightarrow> vec list \<Rightarrow> nat list \<Rightarrow> nat list" where
  "refine 0 cents vs asg = asg"
| "refine (Suc n) cents vs asg =
     (let cents' = update_centroids cents vs asg;
          asg' = assign cents' vs
      in if asg' = asg then asg else refine n cents' vs asg')"

text \<open>
  Modelled from the spec: the failures of the deterministic stages
  (\<^verbatim>\<open>FatalPipelineError\<close> of section 7), which are not in the sources. The one the model
  can raise is seeding more centroids than there are vectors, or none.
\<close>

datatype pipeline_error = CannotSeed nat nat

text \<open>
  Modelled from the spec: the centroid initialisation of the cluster engine, which is
  not in the sources; "seeded deterministically from the input": the first \<open>k\<close> vectors.
\<close>

definition seed_centroids :: "vec list \<Rightarrow> nat \<Rightarrow> pipeline_error + vec list" where
  "seed_centroids vs k =
     (if k = 0 \<or> length vs < k then Inl (CannotSeed k (length vs)) else Inr (take k vs))"

text \<open>
  Modelled from the spec: the cluster engine, which is not in the sources. Input: \<open>N\<close>
  feature vectors and the target count \<open>k\<close>; output: one cluster index per vector.
  "If \<open>N == 0\<close>, returns an empty assignment set without error."
\<close>

definition cluster_engine :: "nat \<Rightarrow> vec list \<Rightarrow> int \<Rightarrow> pipeline_error + nat list" where
  "cluster_engine max_iter vs k =
     (if length vs = 0 then Inr []
      else case seed_centroids vs (effective_k k (length vs)) of
             Inl err \<Rightarrow> Inl err
           | Inr cents \<Rightarrow> Inr (refine max_iter cents vs (assign cents vs)))"

subsection \<open>ROI/priority scorer (specification 4.6)\<close>

text \<open>
  Modelled from the spec: the ROI scorer, which is not in the sources;
  "\<open>sentiment_factor = 1 - avg_sentiment\<close> scaled into \<open>[0,1]\<close>": for an average in
  \<open>[-1,1]\<close> the difference lies in \<open>[0,2]\<close> and is halved.
\<close>

definition sentiment_factor :: "rat \<Rightarrow> rat" where
  "sentiment_factor s = (1 - s) / 2"

text \<open>
  Modelled from the spec: the ROI scorer, which is not in the sources;
  "\<open>normalize(volume)\<close> is volume divided by the largest cluster's volume in the same
  run". With no cluster, or only empty ones, there is nothing to divide by and the
  normalised volume is 0.
\<close>

definition max_volume :: "cluster list \<Rightarrow> nat" where
  "max_volume cs = fold max (map volume cs) 0"

text \<open>
  Modelled from the spec: \<open>normalize(volume)\<close>, so that "the top-volume cluster always
  has normalized volume 1.0".
\<close>

definition normalize_volume :: "nat \<Rightarrow> nat \<Rightarrow> rat" where
  "normalize_volume vmax v = (if vmax = 0 then 0 else of_nat v / of_nat vmax)"

text \<open>
  Modelled from the spec: the ROI scorer, which is not in the sources;
  "\<open>roi = normalize(volume) * sentiment_factor * weight\<close>".
\<close>

definition roi_of :: "rat \<Rightarrow> nat \<Rightarrow> cluster \<Rightarrow> rat" where
  "roi_of w vmax c = normalize_volume vmax (volume c) * sentiment_factor (avg_sentiment c) * w"

text \<open>
  Modelled from the spec: the ROI scorer over the clusters of one run, each scored
  against the same largest volume and the same weight.
\<close>

definition score_roi :: "rat \<Rightarrow> cluster list \<Rightarrow> cluster list" where
  "score_roi w cs = map (\<lambda>c. c\<lparr>roi := roi_of w (max_volume cs) c\<rparr>) cs"

subsection \<open>Insight orchestrator (specification 4.7)\<close>

text \<open>
  Modelled from the spec: the result of a pipeline run (\<^verbatim>\<open>AnalysisResult\<close> of section
  3), which the absent service builds. An item that was excluded from clustering has no
  cluster index. The cluster summaries are the \<open>cluster\<close> records above.
\<close>

record scored_item =
  it_text :: string
  it_clean :: string
  it_cluster :: "nat option"
  it_sentiment :: rat

text \<open>
  Modelled from the spec: what \<open>generate_insights\<close> answers with (section 6),
  \<open>{insights, recommendations, priority_areas}\<close>.
\<close>

record insight_pack =
  ip_insights :: "string list"
  ip_recommendations :: "recommendation list"
  ip_priority_areas :: "string list"

text \<open>
  Modelled from the spec: \<^verbatim>\<open>AnalysisResult\<close> (section 3) as the absent service returns
  it, and the empty-but-valid one.
\<close>

record run_result =
  out_items :: "scored_item list"
  out_clusters :: "cluster list"
  out_insights :: "string list option"
  out_recommendations :: "recommendation list option"
  out_priority_areas :: "string list option"

definition empty_run_result :: run_result where
  "empty_run_result =
     \<lparr>out_items = [], out_clusters = [], out_insights = None, out_recommendations = None,
      out_priority_areas = None\<rparr>"

text \<open>
  Modelled from the spec: the \<open>config\<close> argument of \<open>analyze\<close> (section 6), which is not
  in the sources. The spec names \<open>min_cluster_count\<close> and gives it no role.
\<close>

record config =
  impact_weight :: rat
  min_cluster_count :: int
  enrichment_enabled :: bool

text \<open>
  Modelled from the spec: the deterministic stages whose rule the spec leaves to the
  implementation and which are not in the sources: the text normaliser (4.1), the
  vectoriser (4.2, one vector per string of the corpus), the sentiment scorer (4.4), the
  keyword extractor (4.5, the ordered top terms of a group of vectors), and the
  iteration cap of the cluster engine. They are arguments of the model.
\<close>

record stages =
  normalize :: "string \<Rightarrow> string"
  vectorize :: "string list \<Rightarrow> vec list"
  sentiment_score :: "string \<Rightarrow> rat"
  top_terms :: "vec list \<Rightarrow> string list"
  max_iterations :: nat

text \<open>
  Modelled from the spec: the external enrichment capability (section 6), which is not
  in the sources. It is available or not, resolved once per run; each of its two
  operations answers or fails (\<open>None\<close>: failure, timeout). \<open>label_clusters\<close> answers
  with a mapping from cluster index to label and description; \<open>generate_insights\<close>
  receives the clusters and the scored items its aggregate statistics are taken from.
\<close>

record capability =
  available :: bool
  label_clusters :: "cluster list \<Rightarrow> (nat \<Rightarrow> (string \<times> string) option) option"
  generate_insights :: "cluster list \<Rightarrow> scored_item list \<Rightarrow> insight_pack option"

text \<open>
  Modelled from the spec: the two external calls a run can make, one per operation of
  the capability.
\<close>

datatype enrich_call = LabelClusters | GenerateInsights

text \<open>
  Modelled from the spec: the states of the orchestrator (section 4.7), which is not in
  the sources, and what a run carries from state to state, the external calls it has
  made among it.
\<close>

datatype phase =
  PENDING | CLUSTERED | SENTIMENT_SCORED | LABELED | ENRICHED | ENRICHMENT_SKIPPED | DONE

record run_state =
  phase :: phase
  st_raw :: "string list"
  st_items :: "scored_item list"
  st_vectors :: "vec list"
  st_k :: nat
  st_clusters :: "cluster list"
  st_insights :: "insight_pack option"
  st_calls :: "enrich_call list"
  st_skipped :: bool

text \<open>
  Modelled from the spec: the state a run starts in, \<open>PENDING\<close>, with the raw items and
  no external call made.
\<close>

definition initial_state :: "string list \<Rightarrow> run_state" where
  "initial_state raw =
     \<lparr>phase = PENDING, st_raw = raw, st_items = [], st_vectors = [], st_k = 0,
      st_clusters = [], st_insights = None, st_calls = [], st_skipped = False\<rparr>"

text \<open>
  Modelled from the spec: \<open>PENDING \<rightarrow> CLUSTERED\<close> of the absent orchestrator, "runs
  4.1-4.3". An item with empty cleaned text is excluded from clustering; the others
  receive the engine's assignments in order.
\<close>

fun attach :: "scored_item list \<Rightarrow> nat list \<Rightarrow> scored_item list" where
  "attach [] asg = []"
| "attach (i # rest) asg =
     (if it_clean i = [] then i # attach rest asg
      else case asg of
             [] \<Rightarrow> i # attach rest []
           | a # asg' \<Rightarrow> i\<lparr>it_cluster := Some a\<rparr> # attach rest asg')"

text \<open>
  Modelled from the spec: the transition itself. A failure of the cluster engine is a
  failure of the run.
\<close>

definition cluster_stage :: "stages \<Rightarrow> int \<Rightarrow> run_state \<Rightarrow> pipeline_error + run_state" where
  "cluster_stage sg k s =
     (let fresh = map (\<lambda>t. \<lparr>it_text = t, it_clean = normalize sg t, it_cluster = None,
                             it_sentiment = 0\<rparr>) (st_raw s);
          vs = vectorize sg (filter (\<lambda>c. c \<noteq> []) (map it_clean fresh))
      in case cluster_engine (max_iterations sg) vs k of
           Inl err \<Rightarrow> Inl err
         | Inr asg \<Rightarrow>
             Inr (s\<lparr>phase := CLUSTERED, st_items := attach fresh asg, st_vectors := vs,
                    st_k := effective_k k (length vs)\<rparr>))"

text \<open>
  Modelled from the spec: \<open>CLUSTERED \<rightarrow> SENTIMENT_SCORED\<close> of the absent orchestrator,
  "runs 4.4 per item, aggregates per cluster". An item is scored against its original
  text; an empty text is unscoreable and scores 0. A cluster's volume is the number of
  its items, its average sentiment their mean, 0 for an empty cluster.
\<close>

definition mean :: "rat list \<Rightarrow> rat" where
  "mean xs = (if xs = [] then 0 else sum_list xs / of_nat (length xs))"

text \<open>
  Modelled from the spec: the summary of cluster \<open>j\<close> after scoring; label, keywords and
  score are filled in by the next transition.
\<close>

definition summarize :: "scored_item list \<Rightarrow> nat \<Rightarrow> cluster" where
  "summarize its j =
     (let ms = filter (\<lambda>i. it_cluster i = Some j) its
      in \<lparr>cluster_index = j, label = [], cl_keywords = [], volume = length ms,
          avg_sentiment = mean (map it_sentiment ms), roi = 0, description = None,
          cluster_sentiment = None, labeling_method = None\<rparr>)"

text \<open>
  Modelled from the spec: the transition itself; one summary per cluster index
  \<open>0..k-1\<close>, empty clusters included.
\<close>

definition sentiment_stage :: "stages \<Rightarrow> run_state \<Rightarrow> run_state" where
  "sentiment_stage sg s =
     (let its = map (\<lambda>i. i\<lparr>it_sentiment :=
                              (if it_text i = [] then 0 else sentiment_score sg (it_text i))\<rparr>)
                    (st_items s)
      in s\<lparr>phase := SENTIMENT_SCORED, st_items := its,
            st_clusters := map (summarize its) [0..<st_k s]\<rparr>)"

text \<open>
  Modelled from the spec: \<open>SENTIMENT_SCORED \<rightarrow> LABELED\<close> of the absent orchestrator,
  "runs 4.5-4.6, producing heuristic labels (e.g., top keyword) as the default label";
  the fallback description is the keywords; an empty cluster has no keywords and is
  labelled "Uncategorized".
\<close>

definition heuristic_label :: "string list \<Rightarrow> string" where
  "heuristic_label kws = (case kws of [] \<Rightarrow> ''Uncategorized'' | kw # _ \<Rightarrow> kw)"

text \<open>
  Modelled from the spec: "keywords-as-description", the keywords separated by commas.
\<close>

fun join_terms :: "string list \<Rightarrow> string" where
  "join_terms [] = []"
| "join_terms [kw] = kw"
| "join_terms (kw # kws) = kw @ '', '' @ join_terms kws"

text \<open>
  Modelled from the spec: the keyword extractor applied to the vectors of cluster \<open>j\<close>;
  "empty clusters yield an empty keyword list".
\<close>

definition cluster_keywords :: "stages \<Rightarrow> run_state \<Rightarrow> nat \<Rightarrow> string list" where
  "cluster_keywords sg s j =
     (let ms = members (st_vectors s) (List.map_filter it_cluster (st_items s)) j
      in if ms = [] then [] else top_terms sg ms)"

text \<open>
  Modelled from the spec: the transition itself, keywords and heuristic labels first,
  then the ROI score of every cluster.
\<close>

definition label_stage :: "stages \<Rightarrow> config \<Rightarrow> run_state \<Rightarrow> run_state" where
  "label_stage sg cfg s =
     s\<lparr>phase := LABELED,
       st_clusters :=
         score_roi (impact_weight cfg)
           (map (\<lambda>c. let kws = cluster_keywords sg s (cluster_index c)
                      in c\<lparr>cl_keywords := kws, label := heuristic_label kws,
                           description := Some (join_terms kws),
                           labeling_method := Some ''heuristic''\<rparr>)
                (st_clusters s))\<rparr>"

text \<open>
  Modelled from the spec: \<open>LABELED \<rightarrow> ENRICHED\<close> and \<open>LABELED \<rightarrow> ENRICHMENT_SKIPPED\<close> of
  the absent orchestrator. One batched call when enrichment is enabled and the
  capability available; on success the clusters the answer covers get its label and
  description, the others keep theirs; on failure, or without capability, no retry and
  the skip is recorded.
\<close>

definition apply_labels :: "(nat \<Rightarrow> (string \<times> string) option) \<Rightarrow> cluster list \<Rightarrow> cluster list" where
  "apply_labels m cs =
     map (\<lambda>c. case m (cluster_index c) of
                 None \<Rightarrow> c
               | Some (l, d) \<Rightarrow>
                   c\<lparr>label := l, description := Some d, labeling_method := Some ''enriched''\<rparr>)
         cs"

text \<open>
  Modelled from the spec: the transition itself; the call is counted whether it
  succeeds or fails.
\<close>

definition enrich_labels :: "config \<Rightarrow> capability \<Rightarrow> run_state \<Rightarrow> run_state" where
  "enrich_labels cfg cap s =
     (if enrichment_enabled cfg \<and> available cap then
        (case label_clusters cap (st_clusters s) of
           Some m \<Rightarrow>
             s\<lparr>phase := ENRICHED, st_clusters := apply_labels m (st_clusters s),
               st_calls := st_calls s @ [LabelClusters]\<rparr>
         | None \<Rightarrow>
             s\<lparr>phase := ENRICHMENT_SKIPPED, st_calls := st_calls s @ [LabelClusters],
               st_skipped := True\<rparr>)
      else s\<lparr>phase := ENRICHMENT_SKIPPED, st_skipped := True\<rparr>)"

text \<open>
  Modelled from the spec: the step into \<open>DONE\<close> of the absent orchestrator, "after
  attempting exactly one additional external call" for the insights, with the same
  availability and failure handling; a failure leaves the optional fields out.
\<close>

definition enrich_insights :: "config \<Rightarrow> capability \<Rightarrow> run_state \<Rightarrow> run_state" where
  "enrich_insights cfg cap s =
     (if enrichment_enabled cfg \<and> available cap then
        s\<lparr>phase := DONE,
          st_insights := generate_insights cap (st_clusters s) (st_items s),
          st_calls := st_calls s @ [GenerateInsights]\<rparr>
      else s\<lparr>phase := DONE\<rparr>)"

text \<open>
  Modelled from the spec: one transition of the absent orchestrator's state machine
  \<open>PENDING \<rightarrow> CLUSTERED \<rightarrow> SENTIMENT_SCORED \<rightarrow> LABELED \<rightarrow> ENRICHED|ENRICHMENT_SKIPPED \<rightarrow> DONE\<close>,
  and a run of at most \<open>n\<close> transitions. A failure of a deterministic stage ends the run
  and is reported with the external calls made until then.
\<close>

definition step ::
  "stages \<Rightarrow> config \<Rightarrow> capability \<Rightarrow> int \<Rightarrow> run_state \<Rightarrow> pipeline_error + run_state" where
  "step sg cfg cap k s =
     (case phase s of
        PENDING \<Rightarrow> cluster_stage sg k s
      | CLUSTERED \<Rightarrow> Inr (sentiment_stage sg s)
      | SENTIMENT_SCORED \<Rightarrow> Inr (label_stage sg cfg s)
      | LABELED \<Rightarrow> Inr (enrich_labels cfg cap s)
      | ENRICHED \<Rightarrow> Inr (enrich_insights cfg cap s)
      | ENRICHMENT_SKIPPED \<Rightarrow> Inr (enrich_insights cfg cap s)
      | DONE \<Rightarrow> Inr s)"

text \<open>
  Modelled from the spec: a run of at most \<open>n\<close> transitions, stopping in \<open>DONE\<close> or at
  the first failure.
\<close>

fun run ::
  "nat \<Rightarrow> stages \<Rightarrow> config \<Rightarrow> capability \<Rightarrow> int \<Rightarrow> run_state
     \<Rightarrow> (pipeline_error \<times> enrich_call list) + run_state" where
  "run 0 sg cfg cap k s = Inr s"
| "run (Suc n) sg cfg cap k s =
     (if phase s = DONE then Inr s
      else case step sg cfg cap k s of
             Inl err \<Rightarrow> Inl (err, st_calls s)
           | Inr s' \<Rightarrow> run n sg cfg cap k s')"

text \<open>
  Modelled from the spec: the entry point \<open>analyze(items, k, config)\<close> of the absent
  service (section 6), with the stages and the capability it runs against. An empty or
  all-empty-text batch yields the empty result and no external call (section 7,
  \<^verbatim>\<open>InputError\<close>); any other batch runs the five transitions. The second component
  is the list of external calls the run made.
\<close>

definition result_of :: "run_state \<Rightarrow> run_result" where
  "result_of s =
     \<lparr>out_items = st_items s, out_clusters = st_clusters s,
      out_insights = map_option ip_insights (st_insights s),
      out_recommendations = map_option ip_recommendations (st_insights s),
      out_priority_areas = map_option ip_priority_areas (st_insights s)\<rparr>"

text \<open>
  Modelled from the spec: the entry point itself.
\<close>

definition analyze ::
  "stages \<Rightarrow> capability \<Rightarrow> string list \<Rightarrow> int \<Rightarrow> config
     \<Rightarrow> (pipeline_error + run_result) \<times> enrich_call list" where
  "analyze sg cap raw k cfg =
     (if list_all (\<lambda>t. normalize sg t = []) raw then (Inr empty_run_result, [])
      else case run 5 sg cfg cap k (initial_state raw) of
             Inl (err, calls) \<Rightarrow> (Inl err, calls)
           | Inr s \<Rightarrow> (Inr (result_of s), st_calls s))"



section \<open>Properties of \<^verbatim>\<open>POST /analyze\<close>\<close>

lemma sorted_sort_createdAt_desc:
  "sorted (map (\<lambda>f. - fb_createdAt f) (sort_createdAt_desc e fs))"
  by (simp add: sort_createdAt_desc_def)

lemma mset_sort_createdAt_desc:
  "mset (tie_order e fs) = mset fs \<Longrightarrow> mset (sort_createdAt_desc e fs) = mset fs"
  by (simp add: sort_createdAt_desc_def)

lemma mongo_limit_empty_iff: "mongo_limit n xs = [] \<longleftrightarrow> xs = []"
  by (cases xs) (auto simp: mongo_limit_def)

text \<open>
  A response with an error status never comes with a changed store, and the only change
  the handler ever makes is to append one analysis: the cast of the summary it answers
  with.
\<close>

lemma post_analyze_error_keeps_store:
  "post_analyze e body st = (ResError c a b, st', tr) \<Longrightarrow> st' = st"
  by (auto simp: post_analyze_def Let_def analyze_failed_def split: sum.splits if_splits)

lemma post_analyze_store_cases:
  "post_analyze e body st = (r, st', tr) \<Longrightarrow>
     st' = st \<or> (\<exists>a x. st' = st\<lparr>analyses := analyses st @ [a]\<rparr> \<and> r = ResJson x
                     \<and> summary a = cast_summary x)"
  by (auto simp: post_analyze_def Let_def analyze_failed_def save_analysis_def
      split: sum.splits if_splits option.splits)

text \<open>
  C2. When the query of \<^verbatim>\<open>POST /analyze\<close> finds zero feedback documents, the handler
  answers \<^verbatim>\<open>{ items: [], clusters: [] }\<close> with status 200, leaves both collections as
  they were, and makes no external call: the brain service is not contacted, so nothing
  behind it (the enrichment calls) runs either.
\<close>

theorem analyze_empty_batch:
  assumes "find_feedbacks e (parseInt e (requested_limit body)) st = Inr fbs"
    and "length fbs = 0"
  shows "post_analyze e body st = (ResJson empty_result, st, [])"
  using assms by (simp add: post_analyze_def)

theorem analyze_empty_batch_witness:
  "post_analyze
     \<lparr>brain_post = (\<lambda>texts k. Inl ''unreachable''), find_error = None, save_error = None,
      now = 0, parseInt_other = (\<lambda>q. NaN), odd_limit = (\<lambda>p fs. Inl ''bad limit''),
      tie_order = (\<lambda>fs. fs)\<rparr>
     \<lparr>n_clusters = Some 3, limit = None\<rparr>
     \<lparr>feedbacks = [], analyses = []\<rparr>
   = (ResJson \<lparr>items = [], clusters = [], insights = None, recommendations = None,
               priority_areas = None\<rparr>,
      \<lparr>feedbacks = [], analyses = []\<rparr>, [])"
  using analyze_empty_batch
    [of "\<lparr>brain_post = (\<lambda>texts k. Inl ''unreachable''), find_error = None,
          save_error = None, now = 0, parseInt_other = (\<lambda>q. NaN),
          odd_limit = (\<lambda>p fs. Inl ''bad limit''), tie_order = (\<lambda>fs. fs)\<rparr>"
        "\<lparr>n_clusters = Some 3, limit = None\<rparr>" "\<lparr>feedbacks = [], analyses = []\<rparr>" "[]"]
  by (simp add: find_feedbacks_def parseInt_def requested_limit_def mongo_limit_def
      sort_createdAt_desc_def empty_result_def)

text \<open>
  C6. When the call to the brain service fails (the request rejects with message \<open>m\<close>:
  an error status, a network failure, the timeout), the caller receives status 500 with
  \<^verbatim>\<open>error: "Failed to analyze feedback"\<close> and the rethrown message as details, and the
  store is what it was before the request: no Analysis record is added or changed.
\<close>

theorem analyze_brain_failure_atomic:
  assumes "find_feedbacks e (parseInt e (requested_limit body)) st = Inr fbs"
    and "fbs \<noteq> []"
    and "brain_post e (map fb_text fbs) (requested_clusters body) = Inl m"
  shows "post_analyze e body st =
     (ResError 500 ''Failed to analyze feedback'' (''Brain service failed: '' @ m), st,
      [BrainAnalyze (map fb_text fbs) (requested_clusters body)])"
  using assms by (simp add: post_analyze_def callBrainService_def analyze_failed_def)

theorem analyze_brain_failure_atomic_witness:
  "post_analyze
     \<lparr>brain_post = (\<lambda>texts k. Inl ''timeout of 120000ms exceeded''), find_error = None,
      save_error = None, now = 7, parseInt_other = (\<lambda>q. NaN),
      odd_limit = (\<lambda>p fs. Inl ''bad limit''), tie_order = (\<lambda>fs. fs)\<rparr>
     \<lparr>n_clusters = None, limit = None\<rparr>
     \<lparr>feedbacks = [\<lparr>fb_text = ''slow'', fb_source = ''upload'', fb_createdAt = 1\<rparr>],
      analyses = []\<rparr>
   = (ResError 500 ''Failed to analyze feedback''
        ''Brain service failed: timeout of 120000ms exceeded'',
      \<lparr>feedbacks = [\<lparr>fb_text = ''slow'', fb_source = ''upload'', fb_createdAt = 1\<rparr>],
       analyses = []\<rparr>,
      [BrainAnalyze [''slow''] 5])"
  using analyze_brain_failure_atomic
    [of "\<lparr>brain_post = (\<lambda>texts k. Inl ''timeout of 120000ms exceeded''), find_error = None,
          save_error = None, now = 7, parseInt_other = (\<lambda>q. NaN),
          odd_limit = (\<lambda>p fs. Inl ''bad limit''), tie_order = (\<lambda>fs. fs)\<rparr>"
        "\<lparr>n_clusters = None, limit = None\<rparr>"
        "\<lparr>feedbacks = [\<lparr>fb_text = ''slow'', fb_source = ''upload'', fb_createdAt = 1\<rparr>],
          analyses = []\<rparr>"
        "[\<lparr>fb_text = ''slow'', fb_source = ''upload'', fb_createdAt = 1\<rparr>]"
        "''timeout of 120000ms exceeded''"]
  by (simp add: find_feedbacks_def parseInt_def mongo_limit_def sort_createdAt_desc_def
      requested_limit_def requested_clusters_def)

lemma kept_not_older_than_dropped:
  assumes "x \<in> set (take n (sort_createdAt_desc e fs))"
    and "y \<in> set (drop n (sort_createdAt_desc e fs))"
  shows "fb_createdAt y \<le> fb_createdAt x"
proof -
  let ?key = "\<lambda>f. - fb_createdAt f"
  let ?sorted = "sort_createdAt_desc e fs"
  have "sorted (map ?key (take n ?sorted) @ map ?key (drop n ?sorted))"
    using sorted_sort_createdAt_desc [of e fs] by (simp flip: map_append)
  then have "\<forall>a\<in>set (map ?key (take n ?sorted)). \<forall>b\<in>set (map ?key (drop n ?sorted)). a \<le> b"
    by (simp add: sorted_append)
  with assms show ?thesis by fastforce
qed

text \<open>
  What the handler does once the query has answered with a non-empty list: one call to
  the brain service with the texts of that list, and a response that depends on the
  list only.
\<close>

lemma post_analyze_given_batch:
  assumes "find_feedbacks e (parseInt e (requested_limit body)) st = Inr fbs"
    and "fbs \<noteq> []"
  shows "snd (snd (post_analyze e body st)) =
           [BrainAnalyze (map fb_text fbs) (requested_clusters body)]"
    and "fst (post_analyze e body st) =
           (case callBrainService e (map fb_text fbs) (requested_clusters body) of
              Inl m \<Rightarrow> analyze_failed m
            | Inr r \<Rightarrow> (case save_error e of
                          Some m \<Rightarrow> analyze_failed m
                        | None \<Rightarrow> ResJson r))"
  using assms
  by (simp_all add: post_analyze_def Let_def save_analysis_def
      split: sum.splits option.splits)

text \<open>
  C10, as the claim states it, fails for \<^verbatim>\<open>limit: 0\<close>: the cursor is then not limited at
  all, and a store of two feedback documents is handed to the brain service whole, two
  texts against a limit of zero.
\<close>

theorem analyze_limit_zero_counterexample:
  "batches (snd (snd (post_analyze
     \<lparr>brain_post = (\<lambda>texts k. Inr empty_result), find_error = None, save_error = None,
      now = 0, parseInt_other = (\<lambda>q. NaN), odd_limit = (\<lambda>p fs. Inl ''bad limit''),
      tie_order = (\<lambda>fs. fs)\<rparr>
     \<lparr>n_clusters = None, limit = Some 0\<rparr>
     \<lparr>feedbacks = [\<lparr>fb_text = ''old'', fb_source = ''upload'', fb_createdAt = 1\<rparr>,
                   \<lparr>fb_text = ''new'', fb_source = ''upload'', fb_createdAt = 2\<rparr>],
      analyses = []\<rparr>))) = [[''new'', ''old'']]
   \<and> \<not> length [''new'', ''old''] \<le> (0::nat)"
  by (simp add: post_analyze_def requested_limit_def requested_clusters_def parseInt_def
      find_feedbacks_def mongo_limit_def sort_createdAt_desc_def callBrainService_def
      save_analysis_def)

text \<open>
  C10, amended. Take a request whose query succeeds on a non-empty feedback collection
  and whose \<^verbatim>\<open>parseInt(limit)\<close> is an integer \<open>n \<ge> 0\<close> (the limit is 1000 when the body
  gives none, and parses to 1000), with the database sorting a rearrangement of the
  collection. The handler makes one call to the brain service, with the body's
  \<^verbatim>\<open>n_clusters\<close> (5 when the body gives none) and with the \<^verbatim>\<open>text\<close> fields of the kept
  documents. For \<open>n > 0\<close> the kept documents are the first \<open>n\<close> of the collection in
  descending order of \<^verbatim>\<open>createdAt\<close>: at most \<open>n\<close> items. For \<open>n = 0\<close> every document
  is kept. Kept and left-out documents together are the collection, no document left
  out is newer than a kept one, and the response is what the brain service and the
  save make of the kept documents: the ones left out leave no trace in it.
\<close>

theorem analyze_batch_newest_within_limit:
  fixes e :: env and body :: request_body and st :: store and n :: int
  defines "sorted_fs \<equiv> sort_createdAt_desc e (feedbacks st)"
  defines "kept \<equiv> (if n = 0 then sorted_fs else take (nat n) sorted_fs)"
    and "dropped \<equiv> (if n = 0 then [] else drop (nat n) sorted_fs)"
  assumes "find_error e = None" and "feedbacks st \<noteq> []"
    and "parseInt e (requested_limit body) = Parsed n" and "0 \<le> n"
    and "mset (tie_order e (feedbacks st)) = mset (feedbacks st)"
  shows "snd (snd (post_analyze e body st)) =
           [BrainAnalyze (map fb_text kept) (requested_clusters body)]
       \<and> (0 < n \<longrightarrow> length kept \<le> nat n)
       \<and> (n = 0 \<longrightarrow> mset kept = mset (feedbacks st))
       \<and> mset kept + mset dropped = mset (feedbacks st)
       \<and> (\<forall>x\<in>set kept. \<forall>y\<in>set dropped. fb_createdAt y \<le> fb_createdAt x)
       \<and> fst (post_analyze e body st) =
           (case callBrainService e (map fb_text kept) (requested_clusters body) of
              Inl m \<Rightarrow> analyze_failed m
            | Inr r \<Rightarrow> (case save_error e of
                          Some m \<Rightarrow> analyze_failed m
                        | None \<Rightarrow> ResJson r))
       \<and> parseInt e (requested_limit (body\<lparr>limit := None\<rparr>)) = Parsed 1000
       \<and> requested_clusters (body\<lparr>n_clusters := None\<rparr>) = 5"
proof -
  have perm: "mset sorted_fs = mset (feedbacks st)"
    unfolding sorted_fs_def using assms(8) by (rule mset_sort_createdAt_desc)
  then have nonempty: "sorted_fs \<noteq> []"
    using assms(5) by (metis mset_zero_iff)
  have kept_eq: "kept = mongo_limit (nat n) sorted_fs"
    using assms(7) by (simp add: kept_def mongo_limit_def)
  then have kept_nonempty: "kept \<noteq> []"
    using nonempty by (simp add: mongo_limit_empty_iff)
  have found: "find_feedbacks e (parseInt e (requested_limit body)) st = Inr kept"
    using assms(4,6,7) by (simp add: find_feedbacks_def kept_eq sorted_fs_def)
  note given = post_analyze_given_batch [OF found kept_nonempty]
  have len: "0 < n \<longrightarrow> length kept \<le> nat n"
    by (simp add: kept_def)
  have all: "n = 0 \<longrightarrow> mset kept = mset (feedbacks st)"
    using perm by (simp add: kept_def)
  have "mset (kept @ dropped) = mset sorted_fs"
    unfolding kept_def dropped_def by (simp only: append_take_drop_id append_Nil2 if_distrib
        split: if_splits) simp
  then have parts: "mset kept + mset dropped = mset (feedbacks st)"
    using perm by simp
  have newest: "\<forall>x\<in>set kept. \<forall>y\<in>set dropped. fb_createdAt y \<le> fb_createdAt x"
    unfolding kept_def dropped_def sorted_fs_def
    using kept_not_older_than_dropped by (auto split: if_splits)
  have defaults: "parseInt e (requested_limit (body\<lparr>limit := None\<rparr>)) = Parsed 1000"
    "requested_clusters (body\<lparr>n_clusters := None\<rparr>) = 5"
    by (simp_all add: requested_limit_def requested_clusters_def parseInt_def)
  from given len all parts newest defaults show ?thesis by blast
qed

theorem analyze_batch_newest_within_limit_witness:
  "snd (snd (post_analyze
     \<lparr>brain_post = (\<lambda>texts k. Inr empty_result), find_error = None, save_error = None,
      now = 0, parseInt_other = (\<lambda>q. NaN), odd_limit = (\<lambda>p fs. Inl ''bad limit''),
      tie_order = (\<lambda>fs. fs)\<rparr>
     \<lparr>n_clusters = None, limit = Some (5/2)\<rparr>
     \<lparr>feedbacks = [\<lparr>fb_text = ''old'', fb_source = ''upload'', fb_createdAt = 1\<rparr>,
                   \<lparr>fb_text = ''newest'', fb_source = ''slack'', fb_createdAt = 3\<rparr>,
                   \<lparr>fb_text = ''new'', fb_source = ''upload'', fb_createdAt = 2\<rparr>],
      analyses = []\<rparr>)) = [BrainAnalyze [''newest'', ''new''] 5]"
  using analyze_batch_newest_within_limit
    [of "\<lparr>brain_post = (\<lambda>texts k. Inr empty_result), find_error = None, save_error = None,
          now = 0, parseInt_other = (\<lambda>q. NaN), odd_limit = (\<lambda>p fs. Inl ''bad limit''),
          tie_order = (\<lambda>fs. fs)\<rparr>"
        "\<lparr>feedbacks = [\<lparr>fb_text = ''old'', fb_source = ''upload'', fb_createdAt = 1\<rparr>,
                   \<lparr>fb_text = ''newest'', fb_source = ''slack'', fb_createdAt = 3\<rparr>,
                   \<lparr>fb_text = ''new'', fb_source = ''upload'', fb_createdAt = 2\<rparr>],
          analyses = []\<rparr>"
        "\<lparr>n_clusters = None, limit = Some (5/2)\<rparr>" 2]
  by (simp add: requested_limit_def requested_clusters_def sort_createdAt_desc_def
      parseInt_def floor_eq_iff)

section \<open>Properties of the dashboard's sentiment classes\<close>

lemma getSentimentLabel_Positive: "(getSentimentLabel s = ''Positive'') = (s > 1/10)"
  by (simp add: getSentimentLabel_def)

lemma getSentimentLabel_Negative: "(getSentimentLabel s = ''Negative'') = (s < - (1/10))"
  by (auto simp add: getSentimentLabel_def)

lemma getSentimentLabel_Neutral:
  "(getSentimentLabel s = ''Neutral'') = (\<not> s > 1/10 \<and> \<not> s < - (1/10))"
  by (simp add: getSentimentLabel_def)

text \<open>
  C5. A score is labelled \<^verbatim>\<open>Positive\<close> exactly when it exceeds \<open>0.1\<close>, \<^verbatim>\<open>Negative\<close>
  exactly when it is below \<open>-0.1\<close>, and \<^verbatim>\<open>Neutral\<close> otherwise; and every place of the
  dashboard that classifies sentiment agrees with that label: the home page's own
  labelling, the colour classes of both pages, the cluster filter (over
  \<^verbatim>\<open>avg_sentiment\<close>), the item filter (over \<^verbatim>\<open>sentiment\<close>) and the two counters of the
  summary card.
\<close>

theorem sentiment_threshold_consistent:
  "(getSentimentLabel s = ''Positive'' \<longleftrightarrow> s > 1/10)
   \<and> (getSentimentLabel s = ''Negative'' \<longleftrightarrow> s < - (1/10))
   \<and> (getSentimentLabel s = ''Neutral'' \<longleftrightarrow> \<not> s > 1/10 \<and> \<not> s < - (1/10))
   \<and> home_getSentimentLabel s = getSentimentLabel s
   \<and> (getSentimentColor s = ''text-green-600 bg-green-50'' \<longleftrightarrow> getSentimentLabel s = ''Positive'')
   \<and> (getSentimentColor s = ''text-red-600 bg-red-50'' \<longleftrightarrow> getSentimentLabel s = ''Negative'')
   \<and> (home_getSentimentColor s = ''text-green-600'' \<longleftrightarrow> getSentimentLabel s = ''Positive'')
   \<and> (home_getSentimentColor s = ''text-red-600'' \<longleftrightarrow> getSentimentLabel s = ''Negative'')
   \<and> (cluster_filter FilterPositive c \<longleftrightarrow> getSentimentLabel (avg_sentiment c) = ''Positive'')
   \<and> (cluster_filter FilterNegative c \<longleftrightarrow> getSentimentLabel (avg_sentiment c) = ''Negative'')
   \<and> (cluster_filter FilterNeutral c \<longleftrightarrow> getSentimentLabel (avg_sentiment c) = ''Neutral'')
   \<and> (item_filter FilterPositive i \<longleftrightarrow> getSentimentLabel (sentiment i) = ''Positive'')
   \<and> (item_filter FilterNegative i \<longleftrightarrow> getSentimentLabel (sentiment i) = ''Negative'')
   \<and> (item_filter FilterNeutral i \<longleftrightarrow> getSentimentLabel (sentiment i) = ''Neutral'')
   \<and> positive_feedback a =
       length (filter (\<lambda>i. getSentimentLabel (sentiment i) = ''Positive'') (items a))
   \<and> negative_feedback a =
       length (filter (\<lambda>i. getSentimentLabel (sentiment i) = ''Negative'') (items a))"
proof -
  have home: "home_getSentimentLabel s = getSentimentLabel s"
    by (simp add: getSentimentLabel_def home_getSentimentLabel_def)
  have colours:
    "getSentimentColor s = ''text-green-600 bg-green-50'' \<longleftrightarrow> getSentimentLabel s = ''Positive''"
    "getSentimentColor s = ''text-red-600 bg-red-50'' \<longleftrightarrow> getSentimentLabel s = ''Negative''"
    "home_getSentimentColor s = ''text-green-600'' \<longleftrightarrow> getSentimentLabel s = ''Positive''"
    "home_getSentimentColor s = ''text-red-600'' \<longleftrightarrow> getSentimentLabel s = ''Negative''"
    by (simp_all add: getSentimentColor_def home_getSentimentColor_def getSentimentLabel_def)
  have cl:
    "cluster_filter FilterPositive c \<longleftrightarrow> getSentimentLabel (avg_sentiment c) = ''Positive''"
    "cluster_filter FilterNegative c \<longleftrightarrow> getSentimentLabel (avg_sentiment c) = ''Negative''"
    "cluster_filter FilterNeutral c \<longleftrightarrow> getSentimentLabel (avg_sentiment c) = ''Neutral''"
    by (auto simp add: getSentimentLabel_Positive getSentimentLabel_Negative
        getSentimentLabel_Neutral)
  have it:
    "item_filter FilterPositive i \<longleftrightarrow> getSentimentLabel (sentiment i) = ''Positive''"
    "item_filter FilterNegative i \<longleftrightarrow> getSentimentLabel (sentiment i) = ''Negative''"
    "item_filter FilterNeutral i \<longleftrightarrow> getSentimentLabel (sentiment i) = ''Neutral''"
    by (auto simp add: getSentimentLabel_Positive getSentimentLabel_Negative
        getSentimentLabel_Neutral)
  have pos: "positive_feedback a =
      length (filter (\<lambda>i. getSentimentLabel (sentiment i) = ''Positive'') (items a))"
    unfolding positive_feedback_def getSentimentLabel_Positive ..
  have neg: "negative_feedback a =
      length (filter (\<lambda>i. getSentimentLabel (sentiment i) = ''Negative'') (items a))"
    unfolding negative_feedback_def getSentimentLabel_Negative ..
  from getSentimentLabel_Positive [of s] getSentimentLabel_Negative [of s]
    getSentimentLabel_Neutral [of s] home colours cl it pos neg
  show ?thesis by blast
qed

theorem sentiment_threshold_consistent_witness:
  "getSentimentLabel (1/2) = ''Positive'' \<and> getSentimentLabel (- (1/2)) = ''Negative''
   \<and> getSentimentLabel (1/10) = ''Neutral'' \<and> getSentimentLabel (- (1/10)) = ''Neutral''
   \<and> home_getSentimentLabel (11/100) = ''Positive''"
  using sentiment_threshold_consistent [of "1/2"] sentiment_threshold_consistent [of "- (1/2)"]
    sentiment_threshold_consistent [of "1/10"] sentiment_threshold_consistent [of "- (1/10)"]
    sentiment_threshold_consistent [of "11/100"]
  by simp

section \<open>Properties of the modelled cluster engine\<close>

lemma effective_k_pos: "1 \<le> effective_k k N"
  by (simp add: effective_k_def)

lemma effective_k_le: "0 < N \<Longrightarrow> effective_k k N \<le> N"
  by (auto simp: effective_k_def)

lemma seed_centroids_effective_k:
  assumes "0 < length vs"
  shows "seed_centroids vs (effective_k k (length vs)) =
         Inr (take (effective_k k (length vs)) vs)"
  using effective_k_pos [of k "length vs"] effective_k_le [OF assms, of k]
  by (simp add: seed_centroids_def)

lemma nearest_less: "cs \<noteq> [] \<Longrightarrow> nearest cs v < length cs"
  by (induction cs v rule: nearest.induct) (auto simp: Let_def)

lemma length_update_centroids: "length (update_centroids cents vs asg) = length cents"
  by (simp add: update_centroids_def)

lemma update_centroids_nonempty: "cents \<noteq> [] \<Longrightarrow> update_centroids cents vs asg \<noteq> []"
  by (simp add: update_centroids_def)

lemma length_assign: "length (assign cents vs) = length vs"
  by (simp add: assign_def)

lemma assign_less: "cents \<noteq> [] \<Longrightarrow> a \<in> set (assign cents vs) \<Longrightarrow> a < length cents"
  by (auto simp: assign_def nearest_less)

lemma refine_in_range:
  assumes "cents \<noteq> []" and "length asg = length vs" and "\<forall>a\<in>set asg. a < length cents"
  shows "length (refine n cents vs asg) = length vs
       \<and> (\<forall>a\<in>set (refine n cents vs asg). a < length cents)"
  using assms
proof (induction n arbitrary: cents asg)
  case 0
  then show ?case by simp
next
  case (Suc n)
  let ?moved = "update_centroids cents vs asg"
  let ?next = "assign ?moved vs"
  show ?case
  proof (cases "?next = asg")
    case True
    then have "refine (Suc n) cents vs asg = asg" by (simp add: Let_def)
    then show ?thesis using Suc.prems by simp
  next
    case False
    then have unfold: "refine (Suc n) cents vs asg = refine n ?moved vs ?next"
      by (simp add: Let_def)
    have moved: "?moved \<noteq> []"
      using Suc.prems(1) by (rule update_centroids_nonempty)
    have "\<forall>a\<in>set ?next. a < length ?moved"
      using assign_less [OF moved] by blast
    from Suc.IH [OF moved length_assign this]
    show ?thesis unfolding unfold length_update_centroids .
  qed
qed

lemma cluster_engine_total:
  "\<exists>asg. cluster_engine m vs k = Inr asg \<and> length asg = length vs
      \<and> (\<forall>a\<in>set asg. a < effective_k k (length vs))"
proof (cases "length vs = 0")
  case True
  then show ?thesis by (simp add: cluster_engine_def)
next
  case False
  then have pos: "0 < length vs" by simp
  let ?k = "effective_k k (length vs)"
  let ?seeds = "take ?k vs"
  have len: "length ?seeds = ?k" using effective_k_le [OF pos, of k] by simp
  then have ne: "?seeds \<noteq> []" using effective_k_pos [of k "length vs"] by auto
  have "\<forall>a\<in>set (assign ?seeds vs). a < length ?seeds"
    using assign_less [OF ne] by blast
  from refine_in_range [OF ne length_assign this, of m]
  have range: "length (refine m ?seeds vs (assign ?seeds vs)) = length vs \<and>
        (\<forall>a\<in>set (refine m ?seeds vs (assign ?seeds vs)). a < ?k)"
    unfolding len .
  have "cluster_engine m vs k = Inr (refine m ?seeds vs (assign ?seeds vs))"
    using False seed_centroids_effective_k [OF pos, of k] by (simp add: cluster_engine_def)
  with range show ?thesis by blast
qed

text \<open>
  C8 (on the model of the cluster engine). For every requested count \<open>k\<close> and every list
  of \<open>N\<close> vectors the engine returns assignments and never an error; it works with
  \<open>max(1, min(k, N))\<close> clusters: that many centroids are seeded, which is always possible
  for \<open>N > 0\<close>, and every index it assigns is below that count; for \<open>N = 0\<close> it returns
  the empty assignment list.
\<close>

theorem cluster_engine_clamps:
  "int (effective_k k N) = max 1 (min k (int N))
   \<and> cluster_engine m [] k = Inr []
   \<and> (0 < length vs \<longrightarrow>
        seed_centroids vs (effective_k k (length vs)) =
          Inr (take (effective_k k (length vs)) vs))
   \<and> (\<exists>asg. cluster_engine m vs k = Inr asg \<and> length asg = length vs
         \<and> (\<forall>a\<in>set asg. a < effective_k k (length vs)))"
proof -
  have "int (effective_k k N) = max 1 (min k (int N))"
    by (simp add: effective_k_def)
  moreover have "cluster_engine m [] k = Inr []"
    by (simp add: cluster_engine_def)
  moreover note seed_centroids_effective_k [of vs k] cluster_engine_total [of m vs k]
  ultimately show ?thesis by blast
qed

theorem cluster_engine_clamps_witness:
  "effective_k 5 2 = 2 \<and> cluster_engine 3 [[0], [4]] 5 = Inr [0, 1]
   \<and> cluster_engine 3 [] 5 = Inr []"
  using cluster_engine_clamps [of 5 2 3 "[[0], [4]]"]
  by (simp add: cluster_engine_def effective_k_def seed_centroids_def assign_def
      sq_dist_def update_centroids_def members_def eval_nat_numeral upt_rec)

section \<open>Properties of the modelled ROI scorer\<close>

lemma max_volume_eq: "max_volume cs = Max (insert 0 (volume ` set cs))"
  unfolding max_volume_def using Max.set_eq_fold [of 0 "map volume cs"] by simp

lemma max_volume_top:
  assumes "c \<in> set cs" and "\<forall>d\<in>set cs. volume d \<le> volume c"
  shows "max_volume cs = volume c"
proof -
  have "Max (insert 0 (volume ` set cs)) = volume c"
  proof (rule Max_eqI)
    show "finite (insert 0 (volume ` set cs))" by simp
    show "\<And>y. y \<in> insert 0 (volume ` set cs) \<Longrightarrow> y \<le> volume c" using assms(2) by auto
    show "volume c \<in> insert 0 (volume ` set cs)" using assms(1) by simp
  qed
  then show ?thesis by (simp add: max_volume_eq)
qed

lemma normalize_volume_mono:
  "v \<le> v' \<Longrightarrow> normalize_volume vmax v \<le> normalize_volume vmax v'"
  by (simp add: normalize_volume_def divide_right_mono)

lemma normalize_volume_nonneg: "0 \<le> normalize_volume vmax v"
  by (simp add: normalize_volume_def)

lemma roi_of_le:
  assumes w: "0 \<le> w" and vol: "volume d \<le> volume c"
    and sent: "avg_sentiment c \<le> avg_sentiment d" and bound: "avg_sentiment d \<le> 1"
  shows "roi_of w vmax d \<le> roi_of w vmax c"
proof -
  have factor: "0 \<le> sentiment_factor (avg_sentiment d)"
    "sentiment_factor (avg_sentiment d) \<le> sentiment_factor (avg_sentiment c)"
    using sent bound by (simp_all add: sentiment_factor_def)
  have "normalize_volume vmax (volume d) * sentiment_factor (avg_sentiment d)
      \<le> normalize_volume vmax (volume c) * sentiment_factor (avg_sentiment c)"
    using normalize_volume_mono [OF vol, of vmax] factor
      normalize_volume_nonneg [of vmax "volume c"]
    by (intro mult_mono) simp_all
  then show ?thesis unfolding roi_of_def using w by (rule mult_right_mono)
qed

text \<open>
  The monotonic-priority property of the modelled ROI scorer. For a run with a fixed
  impact weight that is not negative (the default domain \<open>[0, 1]\<close> lies within), whose
  clusters have average sentiments in \<open>[-1, 1]\<close>: a cluster that has both the largest
  volume and the lowest average sentiment of the run has the largest \<open>roi\<close> of the run;
  and the largest volume, when positive, normalises to 1.
\<close>

theorem roi_monotonic_priority:
  assumes "0 \<le> w" and "i < length cs"
    and "\<forall>j<length cs. - 1 \<le> avg_sentiment (cs ! j) \<and> avg_sentiment (cs ! j) \<le> 1"
    and "\<forall>j<length cs. volume (cs ! j) \<le> volume (cs ! i)"
    and "\<forall>j<length cs. avg_sentiment (cs ! i) \<le> avg_sentiment (cs ! j)"
  shows "(\<forall>j<length cs. roi (score_roi w cs ! j) \<le> roi (score_roi w cs ! i))
     \<and> (0 < volume (cs ! i) \<longrightarrow> normalize_volume (max_volume cs) (volume (cs ! i)) = 1)"
proof -
  have top: "max_volume cs = volume (cs ! i)"
    using assms(2,4) by (intro max_volume_top) (auto simp: in_set_conv_nth)
  have "roi (score_roi w cs ! j) \<le> roi (score_roi w cs ! i)" if "j < length cs" for j
    using that assms roi_of_le [of w "cs ! j" "cs ! i" "max_volume cs"]
    by (simp add: score_roi_def)
  then show ?thesis using top by (simp add: normalize_volume_def)
qed

theorem roi_monotonic_priority_witness:
  "map roi (score_roi 1
     [\<lparr>cluster_index = 0, label = ''crash'', cl_keywords = [''crash''], volume = 2,
       avg_sentiment = - (1/2), roi = 0, description = None, cluster_sentiment = None,
       labeling_method = None\<rparr>,
      \<lparr>cluster_index = 1, label = ''design'', cl_keywords = [''design''], volume = 1,
       avg_sentiment = 1/2, roi = 0, description = None, cluster_sentiment = None,
       labeling_method = None\<rparr>]) = [3/4, 1/8]"
  using roi_monotonic_priority
    [of 1 0
      "[\<lparr>cluster_index = 0, label = ''crash'', cl_keywords = [''crash''], volume = 2,
         avg_sentiment = - (1/2), roi = 0, description = None, cluster_sentiment = None,
         labeling_method = None\<rparr>,
        \<lparr>cluster_index = 1, label = ''design'', cl_keywords = [''design''], volume = 1,
         avg_sentiment = 1/2, roi = 0, description = None, cluster_sentiment = None,
         labeling_method = None\<rparr>]"]
  by (simp add: score_roi_def roi_of_def max_volume_def normalize_volume_def
      sentiment_factor_def less_Suc_eq)

section \<open>Properties of the modelled orchestrator\<close>

lemma cluster_stage_ok:
  "\<exists>s'. cluster_stage sg k s = Inr s' \<and> phase s' = CLUSTERED \<and> st_calls s' = st_calls s
        \<and> st_insights s' = st_insights s"
proof -
  let ?vs = "vectorize sg (filter (\<lambda>c. c \<noteq> [])
     (map it_clean (map (\<lambda>t. \<lparr>it_text = t, it_clean = normalize sg t, it_cluster = None,
                             it_sentiment = 0\<rparr>) (st_raw s))))"
  obtain asg where "cluster_engine (max_iterations sg) ?vs k = Inr asg"
    using cluster_engine_total [of "max_iterations sg" ?vs k] by blast
  then show ?thesis by (simp add: cluster_stage_def Let_def)
qed

lemma phase_sentiment_stage [simp]: "phase (sentiment_stage sg s) = SENTIMENT_SCORED"
  and calls_sentiment_stage [simp]: "st_calls (sentiment_stage sg s) = st_calls s"
  and insights_sentiment_stage [simp]: "st_insights (sentiment_stage sg s) = st_insights s"
  by (simp_all add: sentiment_stage_def Let_def)

lemma phase_label_stage [simp]: "phase (label_stage sg cfg s) = LABELED"
  and calls_label_stage [simp]: "st_calls (label_stage sg cfg s) = st_calls s"
  and insights_label_stage [simp]: "st_insights (label_stage sg cfg s) = st_insights s"
  by (simp_all add: label_stage_def)

lemma phase_enrich_labels:
  "phase (enrich_labels cfg cap s) = ENRICHED
   \<or> phase (enrich_labels cfg cap s) = ENRICHMENT_SKIPPED"
  by (simp add: enrich_labels_def split: option.splits)

lemma insights_enrich_labels [simp]: "st_insights (enrich_labels cfg cap s) = st_insights s"
  by (simp add: enrich_labels_def split: option.splits)

lemma phase_enrich_insights [simp]: "phase (enrich_insights cfg cap s) = DONE"
  by (simp add: enrich_insights_def)

lemma step_after_enrich_labels:
  "step sg cfg cap k (enrich_labels cfg cap s) =
     Inr (enrich_insights cfg cap (enrich_labels cfg cap s))"
  using phase_enrich_labels [of cfg cap s] by (auto simp: step_def)

lemma not_done_enrich_labels: "phase (enrich_labels cfg cap s) \<noteq> DONE"
  using phase_enrich_labels [of cfg cap s] by auto

text \<open>
  Five transitions take a run from \<open>PENDING\<close> to \<open>DONE\<close>: the run of \<open>analyze\<close> is
  complete, not cut short.
\<close>

lemma run_five:
  assumes "cluster_stage sg k (initial_state raw) = Inr s1"
  shows "run 5 sg cfg cap k (initial_state raw) =
     Inr (enrich_insights cfg cap (enrich_labels cfg cap
            (label_stage sg cfg (sentiment_stage sg s1))))"
proof -
  have p0: "phase (initial_state raw) = PENDING"
    by (simp add: initial_state_def)
  have p1: "phase s1 = CLUSTERED"
    using cluster_stage_ok [of sg k "initial_state raw"] assms by simp
  let ?s2 = "sentiment_stage sg s1"
  let ?s3 = "label_stage sg cfg ?s2"
  let ?s4 = "enrich_labels cfg cap ?s3"
  have "run 5 sg cfg cap k (initial_state raw) = run 4 sg cfg cap k s1"
    using p0 assms by (simp add: eval_nat_numeral step_def)
  also have "\<dots> = run 3 sg cfg cap k ?s2"
    using p1 by (simp add: eval_nat_numeral step_def)
  also have "\<dots> = run 2 sg cfg cap k ?s3"
    by (simp add: eval_nat_numeral step_def)
  also have "\<dots> = run 1 sg cfg cap k ?s4"
    by (simp add: eval_nat_numeral step_def)
  also have "\<dots> = run 0 sg cfg cap k (enrich_insights cfg cap ?s4)"
    using not_done_enrich_labels [of cfg cap ?s3]
      step_after_enrich_labels [of sg cfg cap k ?s3]
    by simp
  finally show ?thesis by simp
qed

lemma calls_enrich:
  "st_calls (enrich_insights cfg cap (enrich_labels cfg cap s)) =
     st_calls s @ (if enrichment_enabled cfg \<and> available cap
                   then [LabelClusters, GenerateInsights] else [])"
  by (simp add: enrich_insights_def enrich_labels_def split: option.splits)

lemma analyze_nonempty:
  assumes "\<not> list_all (\<lambda>t. normalize sg t = []) raw"
    and "cluster_stage sg k (initial_state raw) = Inr s1"
  shows "fst (analyze sg cap raw k cfg) =
     Inr (result_of (enrich_insights cfg cap (enrich_labels cfg cap
            (label_stage sg cfg (sentiment_stage sg s1)))))"
  using assms by (simp add: analyze_def run_five)

lemma analyze_returns: "\<exists>r. fst (analyze sg cap raw k cfg) = Inr r"
proof (cases "list_all (\<lambda>t. normalize sg t = []) raw")
  case True
  then show ?thesis by (simp add: analyze_def)
next
  case False
  then show ?thesis
    using cluster_stage_ok [of sg k "initial_state raw"] analyze_nonempty by blast
qed

lemma analyze_calls:
  "snd (analyze sg cap raw k cfg) =
     (if list_all (\<lambda>t. normalize sg t = []) raw then []
      else if enrichment_enabled cfg \<and> available cap
           then [LabelClusters, GenerateInsights] else [])"
proof -
  obtain s1 where s1: "cluster_stage sg k (initial_state raw) = Inr s1"
    and "st_calls s1 = st_calls (initial_state raw)"
    using cluster_stage_ok [of sg k "initial_state raw"] by blast
  then have "st_calls s1 = []" by (simp add: initial_state_def)
  then show ?thesis
    by (simp add: analyze_def run_five [OF s1] calls_enrich)
qed

text \<open>
  The entry point on an empty or all-empty-text batch: the empty result, no call.
\<close>

lemma analyze_empty_input:
  "list_all (\<lambda>t. normalize sg t = []) raw \<Longrightarrow>
     analyze sg cap raw k cfg = (Inr empty_run_result, [])"
  by (simp add: analyze_def)

text \<open>
  C1 (on the model of the orchestrator). Every run of \<open>analyze\<close>, whatever the items,
  the requested cluster count, the configuration and the behaviour of the capability,
  returns, and has made at most two external calls: at most one batched
  cluster-labelling call and at most one insights call.
\<close>

theorem analyze_call_budget:
  "(\<exists>r. fst (analyze sg cap raw k cfg) = Inr r)
   \<and> length (snd (analyze sg cap raw k cfg)) \<le> 2
   \<and> count_list (snd (analyze sg cap raw k cfg)) LabelClusters \<le> 1
   \<and> count_list (snd (analyze sg cap raw k cfg)) GenerateInsights \<le> 1"
  using analyze_returns [of sg cap raw k cfg] by (simp add: analyze_calls)

theorem analyze_call_budget_witness:
  "snd (analyze
     \<lparr>normalize = (\<lambda>t. t), vectorize = map (\<lambda>t. [of_nat (length t)]),
      sentiment_score = (\<lambda>t. if t = ''bad'' then - 1 else 1/2),
      top_terms = (\<lambda>vs. [''kw'']), max_iterations = 2\<rparr>
     \<lparr>available = True, label_clusters = (\<lambda>cs. None),
      generate_insights = (\<lambda>cs its. None)\<rparr>
     [''bad'', ''good!'', ''fine'', ''bad''] 2
     \<lparr>impact_weight = 1, min_cluster_count = 1, enrichment_enabled = True\<rparr>)
   = [LabelClusters, GenerateInsights]"
  using analyze_call_budget
    [of "\<lparr>normalize = (\<lambda>t. t), vectorize = map (\<lambda>t. [of_nat (length t)]),
          sentiment_score = (\<lambda>t. if t = ''bad'' then - 1 else 1/2),
          top_terms = (\<lambda>vs. [''kw'']), max_iterations = 2\<rparr>"
        "\<lparr>available = True, label_clusters = (\<lambda>cs. None),
          generate_insights = (\<lambda>cs its. None)\<rparr>"
        "[''bad'', ''good!'', ''fine'', ''bad'']" 2
        "\<lparr>impact_weight = 1, min_cluster_count = 1, enrichment_enabled = True\<rparr>"]
  by (simp add: analyze_calls)

lemma items_enrich [simp]:
  "st_items (enrich_labels cfg cap s) = st_items s"
  "st_items (enrich_insights cfg cap s) = st_items s"
  by (simp_all add: enrich_labels_def enrich_insights_def split: option.splits)



lemma clusters_enrich_insights [simp]:
  "st_clusters (enrich_insights cfg cap s) = st_clusters s"
  by (simp add: enrich_insights_def)






end
